theory Spec2Isabelle
  imports Complex_Main "HOL-Library.Word"
begin

section \<open>JavaScript values\<close>

text \<open>
  A JavaScript string is a sequence of UTF-16 code units; \<open>length\<close> and \<open>trim\<close> work on
  code units. String literals of the source are ASCII and are written with \<open>ascii\<close>.
\<close>

type_synonym jsstring = "16 word list"

definition ascii :: "string \<Rightarrow> jsstring" where
  "ascii s = map (\<lambda>c. word_of_nat (of_char c)) s"

text \<open>
  A JavaScript number is NaN, an infinity or a finite value. Every finite double is a
  rational; the model admits every rational (a superset of the doubles), and has one zero.
\<close>

datatype jsnum = NaN | PosInf | NegInf | Fin rat

text \<open>The primitive values a todo field can hold (objects and arrays are left out).\<close>

datatype jsval = JUndefined | JNull | JBool bool | JNum jsnum | JStr jsstring

text \<open>Truthiness, as \<open>!v\<close>, \<open>v || d\<close> and \<open>if (v)\<close> use it.\<close>

fun truthy :: "jsval \<Rightarrow> bool" where
  "truthy JUndefined = False"
| "truthy JNull = False"
| "truthy (JBool b) = b"
| "truthy (JNum NaN) = False"
| "truthy (JNum (Fin q)) = (q \<noteq> 0)"
| "truthy (JNum PosInf) = True"
| "truthy (JNum NegInf) = True"
| "truthy (JStr s) = (s \<noteq> [])"

text \<open>\<open>a || b\<close>\<close>

definition js_or :: "jsval \<Rightarrow> jsval \<Rightarrow> jsval" where
  "js_or a b = (if truthy a then a else b)"

text \<open>\<open>a === b\<close> on primitives: equality, except that NaN is not equal to itself.\<close>

definition strict_eq :: "jsval \<Rightarrow> jsval \<Rightarrow> bool" where
  "strict_eq a b = (a = b \<and> a \<noteq> JNum NaN)"

text \<open>
  The code units that \<open>String.prototype.trim\<close> strips and the regular expression \<open>\s\<close>
  matches: WhiteSpace and LineTerminator of ECMAScript.
\<close>

definition is_whitespace :: "16 word \<Rightarrow> bool" where
  "is_whitespace c =
     (c \<in> set [0x9, 0xA, 0xB, 0xC, 0xD, 0x20, 0xA0, 0x1680, 0x2028, 0x2029,
                0x202F, 0x205F, 0x3000, 0xFEFF]
      \<or> (0x2000 \<le> c \<and> c \<le> 0x200A))"

definition trim :: "jsstring \<Rightarrow> jsstring" where
  "trim s = rev (dropWhile is_whitespace (rev (dropWhile is_whitespace s)))"

text \<open>The four fields of a Todo object; an absent property reads as \<open>undefined\<close>.\<close>

record todo =
  todoId :: jsval
  title :: jsval
  completed :: jsval
  userId :: jsval

section \<open>The todo service (Data Access Layer)\<close>

text \<open>
  What a service function throws: \<open>new Error(message)\<close>, or the TypeError of the
  runtime when \<open>trim\<close> is called on a title that is not a string (its message is
  written as V8 words it).
\<close>

datatype js_exn = Error jsstring | TypeError jsstring

fun message :: "js_exn \<Rightarrow> jsstring" where
  "message (Error m) = m"
| "message (TypeError m) = m"

text \<open>
  What the HTTP client rejects with, as the \<open>catch\<close> blocks tell the cases apart:
  \<open>error.response\<close> is set (with the two texts that the template literal interpolates:
  the status, and \<open>data?.message || JSON.stringify(data)\<close>), or \<open>error.request\<close> is
  set, or neither (with \<open>error.message\<close>, when there is one).
\<close>

datatype axios_error =
    ResponseError jsstring jsstring
  | NoResponse
  | SetupError "jsstring option"

text \<open>The requests the service sends to the store.\<close>

datatype request =
    GetTodos
  | GetTodo jsval
  | Post todo
  | Put jsval todo

text \<open>
  The \<open>catch\<close> block shared by the four service functions; they differ in the text
  \<open>unknown\<close> only.
\<close>

definition normalize :: "jsstring \<Rightarrow> axios_error \<Rightarrow> js_exn" where
  "normalize unknown e =
     (case e of
        ResponseError status detail \<Rightarrow>
          Error (ascii ''API error '' @ status @ ascii '': '' @ detail)
      | NoResponse \<Rightarrow> Error (ascii ''No response received from Todos API'')
      | SetupError m \<Rightarrow>
          Error (case m of None \<Rightarrow> unknown
                 | Some s \<Rightarrow> if s \<noteq> [] then s else unknown))"

text \<open>
  An \<open>async\<close> function with one \<open>await\<close> is two functions: what it does up to the call
  of the store (it throws, \<open>Inl\<close>, or sends a request, \<open>Inr\<close>), and what it does with
  the store's answer.
\<close>

definition getTodos_response :: "axios_error + todo list \<Rightarrow> js_exn + todo list" where
  "getTodos_response r =
     (case r of Inr data \<Rightarrow> Inr data
      | Inl e \<Rightarrow> Inl (normalize (ascii ''Unknown error fetching todos'') e))"

definition getTodoById_request :: "jsval \<Rightarrow> js_exn + request" where
  "getTodoById_request i =
     (if i = JUndefined \<or> i = JNull then Inl (Error (ascii ''Todo id is required''))
      else Inr (GetTodo i))"

definition getTodoById_response :: "axios_error + todo \<Rightarrow> js_exn + todo" where
  "getTodoById_response r =
     (case r of Inr data \<Rightarrow> Inr data
      | Inl e \<Rightarrow> Inl (normalize (ascii ''Unknown error fetching todo'') e))"

definition addTodo_request :: "todo \<Rightarrow> js_exn + request" where
  "addTodo_request todoData =
     (if \<not> truthy (title todoData) then Inl (Error (ascii ''Todo title is required''))
      else case title todoData of
        JStr s \<Rightarrow>
          if trim s = [] then Inl (Error (ascii ''Todo title is required''))
          else Inr (Post \<lparr>todoId = JUndefined,
                          title = title todoData,
                          completed = js_or (completed todoData) (JBool False),
                          userId = js_or (userId todoData) (JNum (Fin 1))\<rparr>)
      | _ \<Rightarrow> Inl (TypeError (ascii ''todoData.title.trim is not a function'')))"

definition addTodo_response :: "axios_error + todo \<Rightarrow> js_exn + todo" where
  "addTodo_response r =
     (case r of Inr data \<Rightarrow> Inr data
      | Inl e \<Rightarrow> Inl (normalize (ascii ''Unknown error creating todo'') e))"

definition updateTodo_request :: "jsval \<Rightarrow> todo \<Rightarrow> js_exn + request" where
  "updateTodo_request i todoData =
     (if i = JUndefined \<or> i = JNull then Inl (Error (ascii ''Todo id is required''))
      else if \<not> truthy (title todoData) then Inl (Error (ascii ''Todo title is required''))
      else case title todoData of
        JStr s \<Rightarrow>
          if trim s = [] then Inl (Error (ascii ''Todo title is required''))
          else Inr (Put i \<lparr>todoId = i,
                           title = title todoData,
                           completed = js_or (completed todoData) (JBool False),
                           userId = js_or (userId todoData) (JNum (Fin 1))\<rparr>)
      | _ \<Rightarrow> Inl (TypeError (ascii ''todoData.title.trim is not a function'')))"

definition updateTodo_response :: "axios_error + todo \<Rightarrow> js_exn + todo" where
  "updateTodo_response r =
     (case r of Inr data \<Rightarrow> Inr data
      | Inl e \<Rightarrow> Inl (normalize (ascii ''Unknown error updating todo'') e))"

section \<open>The list page and the form page\<close>

text \<open>\<open>err.message || String(err)\<close>, as the pages show a rejected load.\<close>

fun exn_toString :: "js_exn \<Rightarrow> jsstring" where
  "exn_toString (Error m) = (if m = [] then ascii ''Error'' else ascii ''Error: '' @ m)"
| "exn_toString (TypeError m) =
     (if m = [] then ascii ''TypeError'' else ascii ''TypeError: '' @ m)"

definition error_text :: "js_exn \<Rightarrow> jsstring" where
  "error_text err = (if message err \<noteq> [] then message err else exn_toString err)"

text \<open>
  The state variables of a component live in React: a setter stores its value while the
  component is mounted, and React drops the state update of a component that it has
  unmounted. For this rule each page record holds, next to the variables of the source,
  whether React still has the component mounted (\<open>list_shown\<close>, \<open>page_shown\<close>).
\<close>

text \<open>
  TodosListPage: its three state variables, and the variable \<open>mounted\<close> of its effect,
  which the cleanup function of the effect clears.
\<close>

record todosListPage =
  todos :: "todo list"
  loading :: bool
  error :: "jsstring option"
  mounted :: bool
  list_shown :: bool

definition setTodos :: "todo list \<Rightarrow> todosListPage \<Rightarrow> todosListPage" where
  "setTodos data v = (if list_shown v then v\<lparr>todos := data\<rparr> else v)"

definition setError :: "jsstring option \<Rightarrow> todosListPage \<Rightarrow> todosListPage" where
  "setError e v = (if list_shown v then v\<lparr>error := e\<rparr> else v)"

definition setLoading :: "bool \<Rightarrow> todosListPage \<Rightarrow> todosListPage" where
  "setLoading b v = (if list_shown v then v\<lparr>loading := b\<rparr> else v)"

definition listPage_mount :: todosListPage where
  "listPage_mount =
     \<lparr>todos = [], loading = True, error = None, mounted = True, list_shown = True\<rparr>"

definition listPage_cleanup :: "todosListPage \<Rightarrow> todosListPage" where
  "listPage_cleanup v = v\<lparr>mounted := False\<rparr>"

text \<open>The page is torn down: React runs the cleanup function and unmounts the component.\<close>

definition listPage_unmount :: "todosListPage \<Rightarrow> todosListPage" where
  "listPage_unmount v = (listPage_cleanup v)\<lparr>list_shown := False\<rparr>"

text \<open>The \<open>then\<close>, \<open>catch\<close> and \<open>finally\<close> handlers, run when \<open>getTodos()\<close> settles.\<close>

definition listPage_settled :: "js_exn + todo list \<Rightarrow> todosListPage \<Rightarrow> todosListPage" where
  "listPage_settled r v =
     (let v1 = (case r of
                  Inr data \<Rightarrow> if mounted v then setTodos data v else v
                | Inl err \<Rightarrow> if mounted v then setError (Some (error_text err)) v else v)
      in if mounted v1 then setLoading False v1 else v1)"

text \<open>
  TodoFormPage: the route parameter \<open>id\<close> and three state variables. Its effect has no
  variable like \<open>mounted\<close> and returns no cleanup function: its handlers call the
  setters whenever the call settles.
\<close>

record todoFormPage =
  page_id :: "jsstring option"
  page_initialData :: "todo option"
  page_loading :: bool
  page_error :: "jsstring option"
  page_shown :: bool

definition setInitialData :: "todo option \<Rightarrow> todoFormPage \<Rightarrow> todoFormPage" where
  "setInitialData d p = (if page_shown p then p\<lparr>page_initialData := d\<rparr> else p)"

definition page_setError :: "jsstring option \<Rightarrow> todoFormPage \<Rightarrow> todoFormPage" where
  "page_setError e p = (if page_shown p then p\<lparr>page_error := e\<rparr> else p)"

definition page_setLoading :: "bool \<Rightarrow> todoFormPage \<Rightarrow> todoFormPage" where
  "page_setLoading b p = (if page_shown p then p\<lparr>page_loading := b\<rparr> else p)"

definition page_isEditMode :: "jsstring option \<Rightarrow> bool" where
  "page_isEditMode i = (case i of None \<Rightarrow> False | Some s \<Rightarrow> s \<noteq> [])"

definition formPage_mount :: "jsstring option \<Rightarrow> todoFormPage" where
  "formPage_mount i =
     \<lparr>page_id = i, page_initialData = None, page_loading = page_isEditMode i,
      page_error = None, page_shown = True\<rparr>"

text \<open>The page is torn down: React unmounts the component; there is no cleanup to run.\<close>

definition formPage_unmount :: "todoFormPage \<Rightarrow> todoFormPage" where
  "formPage_unmount p = p\<lparr>page_shown := False\<rparr>"

text \<open>The \<open>then\<close> and \<open>catch\<close> handlers, run when \<open>getTodoById(id)\<close> settles.\<close>

definition formPage_settled :: "js_exn + todo \<Rightarrow> todoFormPage \<Rightarrow> todoFormPage" where
  "formPage_settled r p =
     (case r of
        Inr data \<Rightarrow> page_setLoading False (setInitialData (Some data) p)
      | Inl err \<Rightarrow> page_setLoading False (page_setError (Some (error_text err)) p))"

section \<open>The list with its inline form (App)\<close>

text \<open>
  The App component that holds the list and opens TodoForm inline: its five state
  variables and the variable \<open>mounted\<close> of its effect. It is the root of the page and
  stays mounted.
\<close>

record app =
  app_todos :: "todo list"
  app_loading :: bool
  app_error :: "jsstring option"
  showForm :: bool
  editingTodo :: "todo option"
  app_mounted :: bool

definition app_mount :: app where
  "app_mount =
     \<lparr>app_todos = [], app_loading = True, app_error = None, showForm = False,
      editingTodo = None, app_mounted = True\<rparr>"

text \<open>The handlers of its effect, run when \<open>getTodos()\<close> settles.\<close>

definition app_settled :: "js_exn + todo list \<Rightarrow> app \<Rightarrow> app" where
  "app_settled r a =
     (let a1 = (case r of
                  Inr data \<Rightarrow> if app_mounted a then a\<lparr>app_todos := data\<rparr> else a
                | Inl err \<Rightarrow> if app_mounted a then a\<lparr>app_error := Some (error_text err)\<rparr> else a)
      in if app_mounted a1 then a1\<lparr>app_loading := False\<rparr> else a1)"

definition addButton_click :: "app \<Rightarrow> app" where
  "addButton_click a = a\<lparr>editingTodo := None, showForm := True\<rparr>"

definition editButton_click :: "todo \<Rightarrow> app \<Rightarrow> app" where
  "editButton_click t a = a\<lparr>editingTodo := Some t, showForm := True\<rparr>"

text \<open>
  The callback \<open>onSubmitSuccess\<close> is made anew by every render and reads \<open>todos\<close> and
  \<open>editingTodo\<close> of that render, \<open>rendered\<close>; the setters write to the state \<open>a\<close> that
  the App has when the callback is called. TodoForm calls the callback of the render in
  which the form was submitted.
\<close>

definition onSubmitSuccess :: "app \<Rightarrow> todo \<Rightarrow> app \<Rightarrow> app" where
  "onSubmitSuccess rendered newTodo a =
     a\<lparr>app_todos :=
         (case editingTodo rendered of
            Some _ \<Rightarrow>
              map (\<lambda>t. if strict_eq (todoId t) (todoId newTodo) then newTodo else t)
                (app_todos rendered)
          | None \<Rightarrow> newTodo # app_todos rendered),
       showForm := False,
       editingTodo := None\<rparr>"

definition onCancel :: "app \<Rightarrow> app" where
  "onCancel a = a\<lparr>showForm := False, editingTodo := None\<rparr>"

section \<open>The validation schema\<close>

text \<open>
  The schema is written with the yup library (version 1), which is not part of the
  repository. What follows is the part of the library that the schema uses: a field
  schema is a type with the chain of calls made on it; validating a value casts it, runs
  the type, null and presence checks, and, when these pass, every test of the chain in
  order.
\<close>

datatype field = Title | Completed | UserId

datatype yup_type = YString | YNumber | YBoolean

datatype yup_test =
    Min rat jsstring
  | Max rat jsstring
  | Required jsstring
  | Default jsval

text \<open>
  An error message: a text given in the schema, or one of the library's own messages for
  a value of the wrong type or a null value (their wording is not modelled).
\<close>

datatype yup_message = Text jsstring | NotType | NotNull

text \<open>
  The two conversions of the language between strings and numbers are parameters of the
  model: \<open>toNumber\<close> is the unary \<open>+\<close> on a string, \<open>numberToString\<close> is \<open>toString\<close>
  on a number.
\<close>

record js_conversions =
  toNumber :: "jsstring \<Rightarrow> jsnum"
  numberToString :: "jsnum \<Rightarrow> jsstring"

definition todoValidationSchema :: "(field \<times> yup_type \<times> yup_test list) list" where
  "todoValidationSchema =
     [(Title, YString,
        [Min 3 (ascii ''Title must be at least 3 characters''),
         Max 100 (ascii ''Title must not exceed 100 characters''),
         Required (ascii ''Title is required'')]),
      (Completed, YBoolean, [Default (JBool False)]),
      (UserId, YNumber,
        [Min 1 (ascii ''User ID must be at least 1''),
         Max 10 (ascii ''User ID must not exceed 10''),
         Required (ascii ''User ID is required'')])]"

text \<open>Letters A to Z in lower case, as a regular expression with the flag \<open>i\<close> compares.\<close>

definition lower :: "16 word \<Rightarrow> 16 word" where
  "lower c = (if 0x41 \<le> c \<and> c \<le> 0x5A then c + 0x20 else c)"

text \<open>
  The transform of each type. It is not run on \<open>undefined\<close>. A string schema calls
  \<open>toString\<close>; a number schema removes whitespace from a string and converts the rest
  (NaN when nothing is left), keeps null and applies \<open>parseFloat\<close> to everything else
  that is not a number; a boolean schema reads the texts true, 1, false and 0.
\<close>

fun yup_cast :: "js_conversions \<Rightarrow> yup_type \<Rightarrow> jsval \<Rightarrow> jsval" where
  "yup_cast P ty JUndefined = JUndefined"
| "yup_cast P ty JNull = JNull"
| "yup_cast P YString (JStr s) = JStr s"
| "yup_cast P YString (JBool b) = JStr (ascii (if b then ''true'' else ''false''))"
| "yup_cast P YString (JNum n) = JStr (numberToString P n)"
| "yup_cast P YNumber (JStr s) =
     (let parsed = filter (\<lambda>c. \<not> is_whitespace c) s
      in if parsed = [] then JNum NaN else JNum (toNumber P parsed))"
| "yup_cast P YNumber (JNum n) = JNum n"
| "yup_cast P YNumber (JBool b) = JNum NaN"
| "yup_cast P YBoolean (JBool b) = JBool b"
| "yup_cast P YBoolean (JNum n) =
     (if n = Fin 1 then JBool True else if n = Fin 0 then JBool False else JNum n)"
| "yup_cast P YBoolean (JStr s) =
     (if map lower s = ascii ''true'' \<or> s = ascii ''1'' then JBool True
      else if map lower s = ascii ''false'' \<or> s = ascii ''0'' then JBool False
      else JStr s)"

fun default_value :: "yup_test list \<Rightarrow> jsval" where
  "default_value [] = JUndefined"
| "default_value (Default v # ts) = (case default_value ts of JUndefined \<Rightarrow> v | w \<Rightarrow> w)"
| "default_value (_ # ts) = default_value ts"

fun required_message :: "yup_test list \<Rightarrow> jsstring option" where
  "required_message [] = None"
| "required_message (Required m # ts) =
     (case required_message ts of None \<Rightarrow> Some m | Some m' \<Rightarrow> Some m')"
| "required_message (_ # ts) = required_message ts"

fun is_type :: "yup_type \<Rightarrow> jsval \<Rightarrow> bool" where
  "is_type YString (JStr s) = True"
| "is_type YNumber (JNum n) = (n \<noteq> NaN)"
| "is_type YBoolean (JBool b) = True"
| "is_type _ _ = False"

text \<open>
  The checks that run first: presence (\<open>undefined\<close> fails when the chain has
  \<open>required\<close>), null (fails always; with the text of \<open>required\<close> when the chain has
  it), and the type of every other value.
\<close>

definition internal_errors :: "yup_type \<Rightarrow> yup_test list \<Rightarrow> jsval \<Rightarrow> yup_message list" where
  "internal_errors ty chain v =
     (case v of
        JUndefined \<Rightarrow> (case required_message chain of Some m \<Rightarrow> [Text m] | None \<Rightarrow> [])
      | JNull \<Rightarrow> (case required_message chain of Some m \<Rightarrow> [Text m] | None \<Rightarrow> [NotNull])
      | _ \<Rightarrow> if is_type ty v then [] else [NotType])"

fun num_ge :: "jsnum \<Rightarrow> rat \<Rightarrow> bool" where
  "num_ge NaN b = False"
| "num_ge PosInf b = True"
| "num_ge NegInf b = False"
| "num_ge (Fin q) b = (b \<le> q)"

fun num_le :: "jsnum \<Rightarrow> rat \<Rightarrow> bool" where
  "num_le NaN b = False"
| "num_le PosInf b = False"
| "num_le NegInf b = True"
| "num_le (Fin q) b = (q \<le> b)"

text \<open>
  One test of the chain on a cast value; every test passes on an absent value. \<open>min\<close>
  and \<open>max\<close> bound the length of a string and the value of a number; \<open>required\<close> adds
  a test to a string schema only: the string is not empty.
\<close>

fun test_errors :: "jsval \<Rightarrow> yup_test \<Rightarrow> yup_message list" where
  "test_errors (JStr s) (Min b m) = (if b \<le> of_nat (length s) then [] else [Text m])"
| "test_errors (JNum n) (Min b m) = (if num_ge n b then [] else [Text m])"
| "test_errors (JStr s) (Max b m) = (if of_nat (length s) \<le> b then [] else [Text m])"
| "test_errors (JNum n) (Max b m) = (if num_le n b then [] else [Text m])"
| "test_errors (JStr s) (Required m) = (if s \<noteq> [] then [] else [Text m])"
| "test_errors _ _ = []"

text \<open>A field: the cast value (the default when it is \<open>undefined\<close>) and all its errors.\<close>

definition field_validate ::
  "js_conversions \<Rightarrow> yup_type \<Rightarrow> yup_test list \<Rightarrow> jsval \<Rightarrow> jsval \<times> yup_message list" where
  "field_validate P ty chain raw =
     (let c = yup_cast P ty raw;
          v = (if c = JUndefined then default_value chain else c)
      in (v, case internal_errors ty chain v of
               [] \<Rightarrow> concat (map (test_errors v) chain)
             | es \<Rightarrow> es))"

fun get_field :: "field \<Rightarrow> todo \<Rightarrow> jsval" where
  "get_field Title d = title d"
| "get_field Completed d = completed d"
| "get_field UserId d = userId d"

fun set_field :: "field \<Rightarrow> jsval \<Rightarrow> todo \<Rightarrow> todo" where
  "set_field Title v d = d\<lparr>title := v\<rparr>"
| "set_field Completed v d = d\<lparr>completed := v\<rparr>"
| "set_field UserId v d = d\<lparr>userId := v\<rparr>"

text \<open>
  The object schema validates every field (nothing stops at the first error) and keeps
  the properties it does not know, such as \<open>id\<close>.
\<close>

fun schema_validate ::
  "js_conversions \<Rightarrow> (field \<times> yup_type \<times> yup_test list) list \<Rightarrow> todo
     \<Rightarrow> todo \<times> (field \<times> yup_message) list" where
  "schema_validate P [] d = (d, [])"
| "schema_validate P ((k, ty, chain) # rest) d =
     (let (v, es) = field_validate P ty chain (get_field k d);
          (d', es') = schema_validate P rest d
      in (set_field k v d', map (Pair k) es @ es'))"

text \<open>The resolver keeps the first error of each field.\<close>

definition parseErrorSchema :: "(field \<times> yup_message) list \<Rightarrow> (field \<times> yup_message) list" where
  "parseErrorSchema inner =
     foldl (\<lambda>previous (k, m). if map_of previous k = None then previous @ [(k, m)] else previous)
       [] inner"

text \<open>
  \<open>yupResolver(schema)\<close>: the cast values and no errors, or no values and the errors
  (field name, message), in the order of the schema.
\<close>

definition yupResolver ::
  "js_conversions \<Rightarrow> (field \<times> yup_type \<times> yup_test list) list \<Rightarrow> todo
     \<Rightarrow> todo option \<times> (field \<times> yup_message) list" where
  "yupResolver P schema d =
     (let (data, inner) = schema_validate P schema d
      in if inner = [] then (Some data, []) else (None, parseErrorSchema inner))"

definition validate :: "js_conversions \<Rightarrow> todo \<Rightarrow> (field \<times> yup_message) list" where
  "validate P d = snd (yupResolver P todoValidationSchema d)"

text \<open>All errors of one field of a schema, in the order of its checks.\<close>

definition field_errors ::
  "js_conversions \<Rightarrow> (field \<times> yup_type \<times> yup_test list) list \<Rightarrow> field \<Rightarrow> todo
     \<Rightarrow> yup_message list" where
  "field_errors P schema k d =
     (case map_of schema k of
        None \<Rightarrow> []
      | Some (ty, chain) \<Rightarrow> snd (field_validate P ty chain (get_field k d)))"

section \<open>The form (TodoForm)\<close>

text \<open>The calls of the service that a form makes.\<close>

datatype service_call = AddTodo todo | UpdateTodo jsval todo

text \<open>
  The prop \<open>initialData\<close>, the field values and the errors that the form library holds,
  and the two state variables of the component. The other fields are not variables of
  the source; they record what the form has done: the store calls that runs of
  \<open>onSubmit\<close> are waiting for, every call of the service and every request sent to the
  store, the results passed to \<open>onSubmitSuccess\<close> and the number of calls of
  \<open>onCancel\<close>.
\<close>

record todoForm =
  initialData :: "todo option"
  formValues :: todo
  errors :: "(field \<times> yup_message) list"
  isSubmitting :: bool
  submitError :: "jsstring option"
  awaiting :: "request list"
  calls :: "service_call list"
  sent :: "request list"
  succeeded :: "todo list"
  cancelled :: nat

text \<open>\<open>!!initialData?.id\<close>\<close>

definition isEditMode :: "todoForm \<Rightarrow> bool" where
  "isEditMode f = (case initialData f of None \<Rightarrow> False | Some t \<Rightarrow> truthy (todoId t))"

definition defaultValues :: "todo option \<Rightarrow> todo" where
  "defaultValues init =
     (case init of
        Some t \<Rightarrow> t
      | None \<Rightarrow> \<lparr>todoId = JUndefined, title = JStr [], completed = JBool False,
                  userId = JNum (Fin 1)\<rparr>)"

definition form_mount :: "todo option \<Rightarrow> todoForm" where
  "form_mount init =
     \<lparr>initialData = init, formValues = defaultValues init, errors = [],
      isSubmitting = False, submitError = None, awaiting = [],
      calls = [], sent = [], succeeded = [], cancelled = 0\<rparr>"

text \<open>
  The two buttons and the three inputs are rendered with \<open>disabled={isSubmitting}\<close>:
  this is the attribute that a render of the form writes. It keeps the browser from
  sending further events once the form has been rendered again; no handler of the form
  reads \<open>isSubmitting\<close>.
\<close>

definition rendered_disabled :: "todoForm \<Rightarrow> bool" where
  "rendered_disabled f = isSubmitting f"

text \<open>\<open>reset()\<close> puts the default values back and clears the errors.\<close>

definition reset :: "todoForm \<Rightarrow> todoForm" where
  "reset f = f\<lparr>formValues := defaultValues (initialData f), errors := []\<rparr>"

text \<open>The \<open>catch\<close> block of \<open>onSubmit\<close>, followed by its \<open>finally\<close> block.\<close>

definition onSubmit_catch :: "js_exn \<Rightarrow> todoForm \<Rightarrow> todoForm" where
  "onSubmit_catch err f =
     f\<lparr>submitError :=
         Some (if message err \<noteq> [] then message err
               else ascii ''Failed to save todo. Please try again.''),
       isSubmitting := False\<rparr>"

text \<open>
  The rest of the \<open>try\<close> block after the service call has returned \<open>result\<close>, followed
  by the \<open>finally\<close> block.
\<close>

definition onSubmit_then :: "todo \<Rightarrow> todoForm \<Rightarrow> todoForm" where
  "onSubmit_then result f =
     (let f1 = reset f;
          f2 = f1\<lparr>succeeded := succeeded f1 @ [result]\<rparr>
      in f2\<lparr>isSubmitting := False\<rparr>)"

text \<open>
  \<open>onSubmit(data)\<close> up to the point where it waits for the store: the two state updates
  and the call of the service, which throws at once or sends its request. The request
  joins the ones that earlier runs of \<open>onSubmit\<close> may still be waiting for.
\<close>

definition onSubmit :: "todo \<Rightarrow> todoForm \<Rightarrow> todoForm" where
  "onSubmit data f =
     (let f1 = f\<lparr>isSubmitting := True, submitError := None\<rparr>;
          (call, started) =
            (case (isEditMode f, initialData f) of
               (True, Some t) \<Rightarrow>
                 (UpdateTodo (todoId t) data, updateTodo_request (todoId t) data)
             | _ \<Rightarrow> (AddTodo data, addTodo_request data));
          f2 = f1\<lparr>calls := calls f1 @ [call]\<rparr>
      in case started of
           Inl err \<Rightarrow> onSubmit_catch err f2
         | Inr req \<Rightarrow> f2\<lparr>awaiting := awaiting f2 @ [req], sent := sent f2 @ [req]\<rparr>)"

text \<open>
  The store answers the request at position \<open>i\<close> of those that are waited for, and the
  run of \<open>onSubmit\<close> that sent it goes on.
\<close>

definition submit_settled :: "nat \<Rightarrow> axios_error + todo \<Rightarrow> todoForm \<Rightarrow> todoForm" where
  "submit_settled i r f =
     (if i < length (awaiting f)
      then (let req = awaiting f ! i;
                f1 = f\<lparr>awaiting := take i (awaiting f) @ drop (Suc i) (awaiting f)\<rparr>;
                outcome = (case req of Put j payload \<Rightarrow> updateTodo_response r
                           | _ \<Rightarrow> addTodo_response r)
            in case outcome of
                 Inr result \<Rightarrow> onSubmit_then result f1
               | Inl err \<Rightarrow> onSubmit_catch err f1)
      else f)"

text \<open>
  \<open>handleSubmit(onSubmit)\<close> of the form library: it runs the resolver, stores the errors,
  and calls \<open>onSubmit\<close> with the cast values when there is no error.
\<close>

definition handleSubmit :: "js_conversions \<Rightarrow> todoForm \<Rightarrow> todoForm" where
  "handleSubmit P f =
     (case yupResolver P todoValidationSchema (formValues f) of
        (Some data, es) \<Rightarrow> onSubmit data (f\<lparr>errors := []\<rparr>)
      | (None, es) \<Rightarrow> f\<lparr>errors := es\<rparr>)"

definition handleCancel :: "todoForm \<Rightarrow> todoForm" where
  "handleCancel f = (let f1 = reset f in f1\<lparr>cancelled := cancelled f1 + 1\<rparr>)"

text \<open>
  The events that reach the form, and what its handlers do with them: a submit of the
  form, a click on Cancel, a change of a field (after which the form library may show
  other errors; they come with the event), and an answer of the store.
\<close>

datatype event =
    SubmitClick
  | CancelClick
  | Change field jsval "(field \<times> yup_message) list"
  | StoreSettled nat "axios_error + todo"

fun step :: "js_conversions \<Rightarrow> todoForm \<Rightarrow> event \<Rightarrow> todoForm" where
  "step P f SubmitClick = handleSubmit P f"
| "step P f CancelClick = handleCancel f"
| "step P f (Change k v es) = f\<lparr>formValues := set_field k v (formValues f), errors := es\<rparr>"
| "step P f (StoreSettled i r) = submit_settled i r f"

text \<open>A run of the form from the moment it is opened.\<close>

definition run :: "js_conversions \<Rightarrow> todo option \<Rightarrow> event list \<Rightarrow> todoForm" where
  "run P init es = foldl (step P) (form_mount init) es"

section \<open>Example values\<close>

text \<open>A draft whose title is too short, and a draft that passes the schema.\<close>

abbreviation draft_ab :: todo where
  "draft_ab \<equiv> \<lparr>todoId = JUndefined, title = JStr (ascii ''ab''), completed = JUndefined,
                 userId = JNum (Fin 1)\<rparr>"

abbreviation draft_buy_milk :: todo where
  "draft_buy_milk \<equiv> \<lparr>todoId = JUndefined, title = JStr (ascii ''Buy milk''),
                       completed = JBool False, userId = JNum (Fin 1)\<rparr>"


abbreviation todo_1 :: todo where
  "todo_1 \<equiv> \<lparr>todoId = JNum (Fin 1), title = JStr (ascii ''one''),
               completed = JBool False, userId = JNum (Fin 1)\<rparr>"

abbreviation todo_2 :: todo where
  "todo_2 \<equiv> \<lparr>todoId = JNum (Fin 2), title = JStr (ascii ''two''),
               completed = JBool False, userId = JNum (Fin 1)\<rparr>"

abbreviation todo_2_updated :: todo where
  "todo_2_updated \<equiv> \<lparr>todoId = JNum (Fin 2), title = JStr (ascii ''new''),
                       completed = JBool True, userId = JNum (Fin 3)\<rparr>"

abbreviation app_with_form :: "todo list \<Rightarrow> todo option \<Rightarrow> app" where
  "app_with_form ts e \<equiv>
     \<lparr>app_todos = ts, app_loading = False, app_error = None, showForm = True,
      editingTodo = e, app_mounted = True\<rparr>"

section \<open>Properties of the service\<close>

lemma trim_empty_iff: "trim s = [] \<longleftrightarrow> (\<forall>c \<in> set s. is_whitespace c)"
proof
  assume "trim s = []"
  then have all: "\<forall>c \<in> set (dropWhile is_whitespace s). is_whitespace c"
    by (simp add: trim_def)
  show "\<forall>c \<in> set s. is_whitespace c"
  proof (cases "dropWhile is_whitespace s")
    case Nil
    then show ?thesis by simp
  next
    case (Cons x xs)
    then have "\<not> is_whitespace x" by (metis hd_dropWhile list.sel(1) list.distinct(1))
    with all Cons show ?thesis by simp
  qed
next
  assume "\<forall>c \<in> set s. is_whitespace c"
  then show "trim s = []" by (auto simp: trim_def dest: set_dropWhileD)
qed

text \<open>
  C4. \<open>addTodo\<close> throws \<open>Todo title is required\<close> before any request exactly when the
  title is missing or consists of whitespace only (the empty title included);
  \<open>updateTodo\<close> throws \<open>Todo id is required\<close> when the id is missing and otherwise
  behaves like \<open>addTodo\<close>. When nothing is thrown, the request goes to the store with the
  title as given, \<open>completed\<close> replaced by false and \<open>userId\<close> by 1 when they are unset
  (or falsy).
\<close>

theorem service_guards:
  "addTodo_request (d\<lparr>title := JStr s\<rparr>) =
     (if \<forall>c \<in> set s. is_whitespace c
      then Inl (Error (ascii ''Todo title is required''))
      else Inr (Post \<lparr>todoId = JUndefined, title = JStr s,
                      completed = (if truthy (completed d) then completed d else JBool False),
                      userId = (if truthy (userId d) then userId d else JNum (Fin 1))\<rparr>))
   \<and> addTodo_request (d\<lparr>title := JUndefined\<rparr>) = Inl (Error (ascii ''Todo title is required''))
   \<and> addTodo_request (d\<lparr>title := JNull\<rparr>) = Inl (Error (ascii ''Todo title is required''))
   \<and> updateTodo_request i (d\<lparr>title := JStr s\<rparr>) =
     (if i = JUndefined \<or> i = JNull
      then Inl (Error (ascii ''Todo id is required''))
      else if \<forall>c \<in> set s. is_whitespace c
      then Inl (Error (ascii ''Todo title is required''))
      else Inr (Put i \<lparr>todoId = i, title = JStr s,
                       completed = (if truthy (completed d) then completed d else JBool False),
                       userId = (if truthy (userId d) then userId d else JNum (Fin 1))\<rparr>))
   \<and> updateTodo_request i (d\<lparr>title := JUndefined\<rparr>) =
     (if i = JUndefined \<or> i = JNull
      then Inl (Error (ascii ''Todo id is required''))
      else Inl (Error (ascii ''Todo title is required'')))
   \<and> updateTodo_request i (d\<lparr>title := JNull\<rparr>) =
     (if i = JUndefined \<or> i = JNull
      then Inl (Error (ascii ''Todo id is required''))
      else Inl (Error (ascii ''Todo title is required'')))"
proof -
  have empty: "s = [] \<Longrightarrow> \<forall>c \<in> set s. is_whitespace c" by simp
  have add: "addTodo_request (d\<lparr>title := JStr s\<rparr>) =
     (if \<forall>c \<in> set s. is_whitespace c
      then Inl (Error (ascii ''Todo title is required''))
      else Inr (Post \<lparr>todoId = JUndefined, title = JStr s,
                      completed = (if truthy (completed d) then completed d else JBool False),
                      userId = (if truthy (userId d) then userId d else JNum (Fin 1))\<rparr>))"
    using empty by (auto simp: addTodo_request_def js_or_def trim_empty_iff)
  have upd: "updateTodo_request i (d\<lparr>title := JStr s\<rparr>) =
     (if i = JUndefined \<or> i = JNull
      then Inl (Error (ascii ''Todo id is required''))
      else if \<forall>c \<in> set s. is_whitespace c
      then Inl (Error (ascii ''Todo title is required''))
      else Inr (Put i \<lparr>todoId = i, title = JStr s,
                       completed = (if truthy (completed d) then completed d else JBool False),
                       userId = (if truthy (userId d) then userId d else JNum (Fin 1))\<rparr>))"
    using empty by (auto simp: updateTodo_request_def js_or_def trim_empty_iff)
  show ?thesis
    using add upd by (simp add: addTodo_request_def updateTodo_request_def)
qed

text \<open>
  Outside the strings: a falsy title (false, 0, NaN) is refused like a missing one, and a
  truthy title that is not a string has no \<open>trim\<close>.
\<close>

lemma addTodo_title_not_string:
  "(\<forall>s. v \<noteq> JStr s) \<Longrightarrow>
     addTodo_request (d\<lparr>title := v\<rparr>) =
       (if truthy v then Inl (TypeError (ascii ''todoData.title.trim is not a function''))
        else Inl (Error (ascii ''Todo title is required'')))"
  by (cases v) (simp_all add: addTodo_request_def)

text \<open>
  The guards at three inputs: a title of a space and a tab, and the title "Buy milk"
  given to \<open>addTodo\<close> with nothing else set and to \<open>updateTodo\<close> with id 7.
\<close>

theorem service_guards_witness:
  "addTodo_request \<lparr>todoId = JUndefined, title = JStr [0x20, 0x9], completed = JUndefined,
                     userId = JUndefined\<rparr>
     = Inl (Error (ascii ''Todo title is required''))
   \<and> addTodo_request \<lparr>todoId = JUndefined, title = JStr (ascii ''Buy milk''),
                       completed = JUndefined, userId = JUndefined\<rparr>
     = Inr (Post \<lparr>todoId = JUndefined, title = JStr (ascii ''Buy milk''),
                  completed = JBool False, userId = JNum (Fin 1)\<rparr>)
   \<and> updateTodo_request (JNum (Fin 7))
        \<lparr>todoId = JUndefined, title = JStr (ascii ''Buy milk''), completed = JBool True,
         userId = JNum (Fin 3)\<rparr>
     = Inr (Put (JNum (Fin 7))
              \<lparr>todoId = JNum (Fin 7), title = JStr (ascii ''Buy milk''),
               completed = JBool True, userId = JNum (Fin 3)\<rparr>)"
proof -
  let ?unset = "\<lparr>todoId = JUndefined, title = JUndefined, completed = JUndefined,
                 userId = JUndefined\<rparr>"
  have ws: "\<forall>c \<in> set [0x20, 0x9 :: 16 word]. is_whitespace c"
    by (simp add: is_whitespace_def)
  have nws: "\<not> (\<forall>c \<in> set (ascii ''Buy milk''). is_whitespace c)"
    by (simp add: ascii_def is_whitespace_def)
  show ?thesis
    using ws nws
      service_guards [where d = ?unset and s = "[0x20, 0x9]"]
      service_guards [where d = ?unset and s = "ascii ''Buy milk''"]
      service_guards [where d = "\<lparr>todoId = JUndefined, title = JUndefined,
                                   completed = JBool True, userId = JNum (Fin 3)\<rparr>"
                      and s = "ascii ''Buy milk''" and i = "JNum (Fin 7)"]
    by simp
qed

text \<open>
  Not every falsy \<open>completed\<close> is changed on its way to the store: a caller gives
  \<open>completed\<close> false, and the payload is what the caller gave.
\<close>

theorem explicit_false_unchanged_counterexample:
  "truthy (JBool False) = False
   \<and> addTodo_request \<lparr>todoId = JUndefined, title = JStr (ascii ''abc''),
                       completed = JBool False, userId = JNum (Fin 1)\<rparr>
     = Inr (Post \<lparr>todoId = JUndefined, title = JStr (ascii ''abc''),
                  completed = JBool False, userId = JNum (Fin 1)\<rparr>)
   \<and> updateTodo_request (JNum (Fin 7))
        \<lparr>todoId = JNum (Fin 7), title = JStr (ascii ''abc''),
         completed = JBool False, userId = JNum (Fin 1)\<rparr>
     = Inr (Put (JNum (Fin 7))
              \<lparr>todoId = JNum (Fin 7), title = JStr (ascii ''abc''),
               completed = JBool False, userId = JNum (Fin 1)\<rparr>)"
  by (simp add: addTodo_request_def updateTodo_request_def js_or_def trim_def ascii_def
        is_whitespace_def)

text \<open>
  C10, amended. Given a title with a character that is not whitespace (and, for
  \<open>updateTodo\<close>, an id), \<open>addTodo\<close> and \<open>updateTodo\<close> send a request whose payload has
  the title as given, \<open>userId\<close> as given when it is truthy and 1 when it is falsy (0,
  NaN, the empty string, null, undefined, false), and \<open>completed\<close> as given when it is
  truthy and false when it is falsy. So a falsy \<open>userId\<close> never passes through
  unchanged, and a falsy \<open>completed\<close> passes through unchanged only when it is false
  itself.
\<close>

theorem defaulting_falsy:
  assumes t: "title d = JStr s"
    and nb: "\<not> (\<forall>c \<in> set s. is_whitespace c)"
    and i: "i \<noteq> JUndefined" "i \<noteq> JNull"
  shows "\<exists>p q. addTodo_request d = Inr (Post p) \<and> updateTodo_request i d = Inr (Put i q)
     \<and> title p = JStr s \<and> title q = JStr s
     \<and> todoId p = JUndefined \<and> todoId q = i
     \<and> userId p = (if truthy (userId d) then userId d else JNum (Fin 1))
     \<and> userId q = (if truthy (userId d) then userId d else JNum (Fin 1))
     \<and> completed p = (if truthy (completed d) then completed d else JBool False)
     \<and> completed q = (if truthy (completed d) then completed d else JBool False)
     \<and> (\<not> truthy (userId d) \<longrightarrow> userId p \<noteq> userId d \<and> userId q \<noteq> userId d)
     \<and> (\<not> truthy (completed d) \<longrightarrow>
           (completed p = completed d \<longleftrightarrow> completed d = JBool False)
           \<and> (completed q = completed d \<longleftrightarrow> completed d = JBool False))"
proof -
  let ?u = "if truthy (userId d) then userId d else JNum (Fin 1)"
  let ?c = "if truthy (completed d) then completed d else JBool False"
  let ?p = "\<lparr>todoId = JUndefined, title = JStr s, completed = ?c, userId = ?u\<rparr>"
  let ?q = "\<lparr>todoId = i, title = JStr s, completed = ?c, userId = ?u\<rparr>"
  have ne: "s \<noteq> []" using nb by auto
  have tr: "trim s \<noteq> []" using nb by (simp add: trim_empty_iff)
  have add: "addTodo_request d = Inr (Post ?p)"
    using t ne tr by (simp add: addTodo_request_def js_or_def)
  have upd: "updateTodo_request i d = Inr (Put i ?q)"
    using t ne tr i by (simp add: updateTodo_request_def js_or_def)
  have one: "\<not> truthy (userId d) \<longrightarrow> ?u \<noteq> userId d"
    by (cases "userId d") (auto split: jsnum.splits)
  have fls: "\<not> truthy (completed d) \<longrightarrow> (?c = completed d \<longleftrightarrow> completed d = JBool False)"
    by (cases "completed d") (auto split: jsnum.splits)
  show ?thesis
    apply (rule exI [of _ ?p])
    apply (rule exI [of _ ?q])
    using add upd one fls by simp
qed

text \<open>
  A caller passes \<open>userId\<close> 0 and the empty string as \<open>completed\<close>: the payloads of
  \<open>addTodo\<close> and of \<open>updateTodo\<close> carry 1 and false.
\<close>

theorem defaulting_falsy_witness:
  "\<exists>p q. addTodo_request \<lparr>todoId = JUndefined, title = JStr (ascii ''abc''),
                           completed = JStr [], userId = JNum (Fin 0)\<rparr> = Inr (Post p)
     \<and> updateTodo_request (JNum (Fin 7)) \<lparr>todoId = JUndefined, title = JStr (ascii ''abc''),
                           completed = JStr [], userId = JNum (Fin 0)\<rparr> = Inr (Put (JNum (Fin 7)) q)
     \<and> userId p = JNum (Fin 1) \<and> completed p = JBool False
     \<and> userId q = JNum (Fin 1) \<and> completed q = JBool False"
proof -
  let ?d = "\<lparr>todoId = JUndefined, title = JStr (ascii ''abc''), completed = JStr [],
             userId = JNum (Fin 0)\<rparr>"
  have t: "title ?d = JStr (ascii ''abc'')" by simp
  have nb: "\<not> (\<forall>c \<in> set (ascii ''abc''). is_whitespace c)"
    by (simp add: ascii_def is_whitespace_def)
  have i: "JNum (Fin 7) \<noteq> JUndefined" "JNum (Fin 7) \<noteq> JNull" by simp_all
  from defaulting_falsy [OF t nb i] obtain p q where
    "addTodo_request ?d = Inr (Post p)" "updateTodo_request (JNum (Fin 7)) ?d = Inr (Put (JNum (Fin 7)) q)"
    "userId p = (if truthy (userId ?d) then userId ?d else JNum (Fin 1))"
    "userId q = (if truthy (userId ?d) then userId ?d else JNum (Fin 1))"
    "completed p = (if truthy (completed ?d) then completed ?d else JBool False)"
    "completed q = (if truthy (completed ?d) then completed ?d else JBool False)"
    by blast
  then show ?thesis by (intro exI [of _ p] exI [of _ q]) simp
qed

section \<open>Properties of the pages\<close>

lemma listPage_ignores_late_result: "\<not> mounted v \<Longrightarrow> listPage_settled r v = v"
  by (simp add: listPage_settled_def split: sum.splits)

lemma formPage_setters_dropped:
  "\<not> page_shown p \<Longrightarrow>
     setInitialData d p = p \<and> page_setError e p = p \<and> page_setLoading b p = p"
  by (simp add: setInitialData_def page_setError_def page_setLoading_def)

text \<open>
  C1. A result that arrives after the view has been torn down leaves its state as it
  is, whether the call succeeded or failed. The list page calls no setter once its
  cleanup has cleared \<open>mounted\<close>; the form page calls its setters, and React drops them
  for the unmounted component. While the views are mounted the same results are stored:
  the todos or the message of the failure, and \<open>loading\<close> is cleared.
\<close>

theorem late_result_ignored:
  "listPage_settled r (listPage_unmount v) = listPage_unmount v
   \<and> formPage_settled r' (formPage_unmount p) = formPage_unmount p
   \<and> (\<not> mounted v \<longrightarrow> listPage_settled r v = v)
   \<and> (mounted v \<and> list_shown v \<longrightarrow>
        listPage_settled (Inr data) v = v\<lparr>todos := data, loading := False\<rparr>
        \<and> listPage_settled (Inl err) v = v\<lparr>error := Some (error_text err), loading := False\<rparr>)
   \<and> (page_shown p \<longrightarrow>
        formPage_settled (Inr d) p = p\<lparr>page_initialData := Some d, page_loading := False\<rparr>
        \<and> formPage_settled (Inl err) p
            = p\<lparr>page_error := Some (error_text err), page_loading := False\<rparr>)"
proof -
  have list_gone: "listPage_settled r (listPage_unmount v) = listPage_unmount v"
    by (rule listPage_ignores_late_result) (simp add: listPage_unmount_def listPage_cleanup_def)
  have gone: "\<not> page_shown (formPage_unmount p)" by (simp add: formPage_unmount_def)
  have page_gone: "formPage_settled r' (formPage_unmount p) = formPage_unmount p"
    using formPage_setters_dropped [OF gone]
    by (cases r') (simp_all add: formPage_settled_def)
  have list_live: "mounted v \<and> list_shown v \<longrightarrow>
        listPage_settled (Inr data) v = v\<lparr>todos := data, loading := False\<rparr>
        \<and> listPage_settled (Inl err) v = v\<lparr>error := Some (error_text err), loading := False\<rparr>"
    by (simp add: listPage_settled_def setTodos_def setError_def setLoading_def)
  have page_live: "page_shown p \<longrightarrow>
        formPage_settled (Inr d) p = p\<lparr>page_initialData := Some d, page_loading := False\<rparr>
        \<and> formPage_settled (Inl err) p
            = p\<lparr>page_error := Some (error_text err), page_loading := False\<rparr>"
    by (simp add: formPage_settled_def setInitialData_def page_setError_def page_setLoading_def)
  from list_gone page_gone list_live page_live listPage_ignores_late_result [of v r]
  show ?thesis by blast
qed

text \<open>
  The list page and the form page for the todo 5, each with its call in flight: the
  answer is stored while the page is mounted and changes nothing after the teardown.
\<close>

theorem late_result_ignored_witness:
  "todos (listPage_settled (Inr [todo_1]) listPage_mount) = [todo_1]
   \<and> loading (listPage_settled (Inr [todo_1]) listPage_mount) = False
   \<and> listPage_settled (Inr [todo_1]) (listPage_unmount listPage_mount)
       = listPage_unmount listPage_mount
   \<and> loading (listPage_unmount listPage_mount) = True
   \<and> page_initialData (formPage_settled (Inr todo_1) (formPage_mount (Some (ascii ''5''))))
       = Some todo_1
   \<and> page_loading (formPage_settled (Inr todo_1) (formPage_mount (Some (ascii ''5''))))
       = False
   \<and> formPage_settled (Inr todo_1) (formPage_unmount (formPage_mount (Some (ascii ''5''))))
       = formPage_unmount (formPage_mount (Some (ascii ''5'')))
   \<and> formPage_settled (Inl (Error (ascii ''No response received from Todos API'')))
        (formPage_unmount (formPage_mount (Some (ascii ''5''))))
       = formPage_unmount (formPage_mount (Some (ascii ''5'')))
   \<and> page_loading (formPage_unmount (formPage_mount (Some (ascii ''5'')))) = True"
proof -
  let ?v = listPage_mount
  let ?p = "formPage_mount (Some (ascii ''5''))"
  have lv: "mounted ?v \<and> list_shown ?v" by (simp add: listPage_mount_def)
  have pv: "page_shown ?p" by (simp add: formPage_mount_def)
  have l0: "loading (listPage_unmount ?v) = True"
    by (simp add: listPage_unmount_def listPage_cleanup_def listPage_mount_def)
  have p0: "page_loading (formPage_unmount ?p) = True"
    by (simp add: formPage_unmount_def formPage_mount_def page_isEditMode_def ascii_def)
  from late_result_ignored [of "Inr [todo_1]" ?v "Inr todo_1" ?p "[todo_1]" _ todo_1]
       late_result_ignored
         [of _ ?v "Inl (Error (ascii ''No response received from Todos API''))" ?p]
       lv pv l0 p0
  show ?thesis by simp
qed

section \<open>Properties of the list\<close>




text \<open>
  When the list of the render is no longer the list of the App, the callback still
  builds on the former: the form is opened and submitted while the list is loading, the
  list arrives, and the answer of the store then replaces it.
\<close>

lemma onSubmitSuccess_after_load:
  "app_todos (onSubmitSuccess (addButton_click app_mount) newTodo
                (app_settled (Inr data) (addButton_click app_mount)))
     = [newTodo]
   \<and> app_todos (app_settled (Inr data) (addButton_click app_mount)) = data"
  by (simp add: onSubmitSuccess_def addButton_click_def app_mount_def app_settled_def)

lemma strict_eq_iff: "strict_eq x y \<Longrightarrow> strict_eq z y \<longleftrightarrow> z = y"
  by (auto simp: strict_eq_def)

lemma replace_filter:
  "distinct (map g xs) \<Longrightarrow> t \<in> set xs \<Longrightarrow> g n = g t \<Longrightarrow>
     filter (\<lambda>u. g u = g n) (map (\<lambda>u. if g u = g n then n else u) xs) = [n]"
proof (induction xs)
  case Nil
  then show ?case by simp
next
  case (Cons x xs)
  show ?case
  proof (cases "x = t")
    case True
    with Cons.prems have "\<forall>u \<in> set xs. g u \<noteq> g n" by (auto simp: image_iff)
    then have "filter (\<lambda>u. g u = g n) (map (\<lambda>u. if g u = g n then n else u) xs) = []"
      by (simp add: filter_empty_conv)
    with True Cons.prems show ?thesis by simp
  next
    case False
    with Cons.prems have "t \<in> set xs" by simp
    with Cons.prems have "g x \<noteq> g n" by auto
    with Cons \<open>t \<in> set xs\<close> show ?thesis by simp
  qed
qed

lemma count_list_filter:
  "count_list (filter Q ys) n = (if Q n then count_list ys n else 0)"
  by (induction ys) auto

text \<open>
  C8. The list has distinct identifiers and a todo is being edited; the store answers the
  update with a todo whose identifier is that of the entry \<open>t\<close> of the list. Then the
  list keeps its length, the entry with that identifier is now the answer, every entry
  with another identifier is at its place with its values, and the answer is the only
  entry with its identifier and occurs once.
\<close>

theorem update_replaces:
  assumes edit: "editingTodo a = Some e"
    and dist: "distinct (map todoId (app_todos a))"
    and t: "t \<in> set (app_todos a)"
    and same: "strict_eq (todoId t) (todoId newTodo)"
  shows "length (app_todos (onSubmitSuccess a newTodo a)) = length (app_todos a)
    \<and> (\<forall>i < length (app_todos a).
          app_todos (onSubmitSuccess a newTodo a) ! i =
            (if todoId (app_todos a ! i) = todoId newTodo then newTodo else app_todos a ! i))
    \<and> filter (\<lambda>u. todoId u = todoId newTodo) (app_todos (onSubmitSuccess a newTodo a))
        = [newTodo]
    \<and> count_list (app_todos (onSubmitSuccess a newTodo a)) newTodo = 1"
proof -
  let ?xs = "app_todos a"
  let ?ys = "map (\<lambda>u. if todoId u = todoId newTodo then newTodo else u) ?xs"
  have ids: "todoId newTodo = todoId t" using same by (simp add: strict_eq_def)
  have res: "app_todos (onSubmitSuccess a newTodo a) = ?ys"
    using edit strict_eq_iff [OF same] by (simp add: onSubmitSuccess_def)
  have nth: "\<forall>i < length ?xs.
      ?ys ! i = (if todoId (?xs ! i) = todoId newTodo then newTodo else ?xs ! i)"
    by simp
  have filt: "filter (\<lambda>u. todoId u = todoId newTodo) ?ys = [newTodo]"
    using replace_filter [OF dist t ids] .
  have "count_list ?ys newTodo
      = count_list (filter (\<lambda>u. todoId u = todoId newTodo) ?ys) newTodo"
    by (simp add: count_list_filter)
  also have "\<dots> = 1" by (simp only: filt) simp
  finally have cnt: "count_list ?ys newTodo = 1" .
  show ?thesis using nth filt cnt by (simp add: res)
qed

text \<open>The todo 2 of a list of two is edited; the answer takes its place.\<close>

theorem update_replaces_witness:
  "app_todos (onSubmitSuccess (app_with_form [todo_1, todo_2] (Some todo_2)) todo_2_updated
                (app_with_form [todo_1, todo_2] (Some todo_2))) ! 1
     = todo_2_updated
   \<and> app_todos (onSubmitSuccess (app_with_form [todo_1, todo_2] (Some todo_2)) todo_2_updated
                  (app_with_form [todo_1, todo_2] (Some todo_2))) ! 0
     = todo_1"
proof -
  let ?a = "app_with_form [todo_1, todo_2] (Some todo_2)"
  have 1: "editingTodo ?a = Some todo_2" by simp
  have 2: "distinct (map todoId (app_todos ?a))" by simp
  have 3: "todo_2 \<in> set (app_todos ?a)" by simp
  have 4: "strict_eq (todoId todo_2) (todoId todo_2_updated)" by (simp add: strict_eq_def)
  from update_replaces [OF 1 2 3 4] show ?thesis by simp
qed

section \<open>Properties of the schema and the form\<close>

lemma parseErrorSchema_foldl:
  "map_of (foldl (\<lambda>previous (k, m). if map_of previous k = None then previous @ [(k, m)] else previous) prev inner) k
     = (case map_of prev k of Some m \<Rightarrow> Some m | None \<Rightarrow> map_of inner k)"
proof (induction inner arbitrary: prev)
  case Nil
  then show ?case by (simp split: option.splits)
next
  case (Cons x inner)
  obtain k' m' where x: "x = (k', m')" by (cases x)
  show ?case
    by (simp add: x Cons.IH map_add_def split: option.splits)
qed

lemma map_of_parseErrorSchema: "map_of (parseErrorSchema inner) = map_of inner"
  by (rule ext) (simp add: parseErrorSchema_def parseErrorSchema_foldl)

lemma parseErrorSchema_empty_iff: "parseErrorSchema inner = [] \<longleftrightarrow> inner = []"
proof
  assume "parseErrorSchema inner = []"
  then have "map_of inner = Map.empty" using map_of_parseErrorSchema [of inner] by simp
  then show "inner = []" by (cases inner) (auto simp: fun_eq_iff split: if_splits)
next
  assume "inner = []" then show "parseErrorSchema inner = []" by (simp add: parseErrorSchema_def)
qed

lemma schema_inner:
  "snd (schema_validate P todoValidationSchema d) =
     map (Pair Title) (field_errors P todoValidationSchema Title d)
     @ map (Pair Completed) (field_errors P todoValidationSchema Completed d)
     @ map (Pair UserId) (field_errors P todoValidationSchema UserId d)"
  by (simp add: todoValidationSchema_def field_errors_def split_beta Let_def)

lemma map_of_map_Pair:
  "map_of (map (Pair k) es @ rest) k' =
     (if k' = k then (case es of [] \<Rightarrow> map_of rest k' | m # _ \<Rightarrow> Some m) else map_of rest k')"
  by (induction es) (auto split: list.splits)

lemma map_of_map_Pair_last:
  "map_of (map (Pair k) es) k' =
     (if k' = k then (case es of [] \<Rightarrow> None | m # _ \<Rightarrow> Some m) else None)"
  by (induction es) (auto split: list.splits)

lemma validate_eq: "validate P d = parseErrorSchema (snd (schema_validate P todoValidationSchema d))"
  by (simp add: validate_def yupResolver_def split_beta parseErrorSchema_def)

lemma map_of_validate:
  "map_of (validate P d) k = (case field_errors P todoValidationSchema k d of [] \<Rightarrow> None | m # _ \<Rightarrow> Some m)"
proof -
  have "map_of (validate P d) k = map_of (snd (schema_validate P todoValidationSchema d)) k"
    by (simp add: validate_eq map_of_parseErrorSchema)
  also have "\<dots> = (case field_errors P todoValidationSchema k d of [] \<Rightarrow> None | m # _ \<Rightarrow> Some m)"
    by (cases k)
      (simp_all add: schema_inner map_of_map_Pair map_of_map_Pair_last
         del: map_of_append split: list.splits)
  finally show ?thesis .
qed

lemma title_errors_string:
  "title d = JStr s \<Longrightarrow> field_errors P todoValidationSchema Title d =
     (if length s < 3 then [Text (ascii ''Title must be at least 3 characters'')] else [])
     @ (if 100 < length s then [Text (ascii ''Title must not exceed 100 characters'')] else [])
     @ (if s = [] then [Text (ascii ''Title is required'')] else [])"
  by (simp add: field_errors_def todoValidationSchema_def field_validate_def internal_errors_def)

lemma title_errors_absent:
  "title d = JUndefined \<or> title d = JNull \<Longrightarrow> field_errors P todoValidationSchema Title d = [Text (ascii ''Title is required'')]"
  by (auto simp: field_errors_def todoValidationSchema_def field_validate_def internal_errors_def)

lemma userId_errors_cast:
  "field_errors P todoValidationSchema UserId d =
     (case yup_cast P YNumber (userId d) of
        JUndefined \<Rightarrow> [Text (ascii ''User ID is required'')]
      | JNull \<Rightarrow> [Text (ascii ''User ID is required'')]
      | JNum NaN \<Rightarrow> [NotType]
      | JNum n \<Rightarrow>
          (if num_ge n 1 then [] else [Text (ascii ''User ID must be at least 1'')])
          @ (if num_le n 10 then [] else [Text (ascii ''User ID must not exceed 10'')])
      | _ \<Rightarrow> [NotType])"
  by (simp add: field_errors_def todoValidationSchema_def field_validate_def internal_errors_def
        split: jsval.splits jsnum.splits)

lemma completed_errors_cast:
  "field_errors P todoValidationSchema Completed d =
     (case yup_cast P YBoolean (completed d) of
        JUndefined \<Rightarrow> []
      | JNull \<Rightarrow> [NotNull]
      | JBool b \<Rightarrow> []
      | _ \<Rightarrow> [NotType])"
  by (simp add: field_errors_def todoValidationSchema_def field_validate_def internal_errors_def
        split: jsval.splits jsnum.splits)

lemma validate_draft_ab:
  "validate P draft_ab = [(Title, Text (ascii ''Title must be at least 3 characters''))]"
  by (simp add: validate_eq schema_inner title_errors_string userId_errors_cast
        completed_errors_cast parseErrorSchema_def ascii_def)

lemma validate_draft_buy_milk: "validate P draft_buy_milk = []"
  by (simp add: validate_eq schema_inner title_errors_string userId_errors_cast
        completed_errors_cast parseErrorSchema_def ascii_def)

lemma cast_draft_buy_milk:
  "fst (schema_validate P todoValidationSchema draft_buy_milk) = draft_buy_milk"
  by (simp add: todoValidationSchema_def field_validate_def split_beta Let_def)

lemma addTodo_draft_buy_milk:
  "addTodo_request draft_buy_milk = Inr (Post draft_buy_milk)"
  by (simp add: addTodo_request_def js_or_def trim_def ascii_def is_whitespace_def)

lemma handleSubmit_invalid:
  "validate P (formValues f) \<noteq> [] \<Longrightarrow>
     handleSubmit P f = f\<lparr>errors := validate P (formValues f)\<rparr>"
  by (simp add: handleSubmit_def validate_def yupResolver_def split_beta split: if_splits)

lemma handleSubmit_valid:
  "validate P (formValues f) = [] \<Longrightarrow>
     handleSubmit P f =
       onSubmit (fst (schema_validate P todoValidationSchema (formValues f))) (f\<lparr>errors := []\<rparr>)"
  by (simp add: handleSubmit_def validate_def yupResolver_def split_beta parseErrorSchema_empty_iff
        split: if_splits)

lemma onSubmit_cases:
  "(\<exists>c err. onSubmit data f =
      onSubmit_catch err (f\<lparr>isSubmitting := True, submitError := None, calls := calls f @ [c]\<rparr>))
   \<or> (\<exists>c req. onSubmit data f =
      f\<lparr>isSubmitting := True, submitError := None, calls := calls f @ [c],
        awaiting := awaiting f @ [req], sent := sent f @ [req]\<rparr>)"
  by (auto simp: onSubmit_def Let_def split: option.splits sum.splits bool.splits)

lemma onSubmit_errors: "errors (onSubmit data f) = errors f"
  using onSubmit_cases [of data f] by (auto simp: onSubmit_catch_def)

lemma onSubmit_formValues: "formValues (onSubmit data f) = formValues f"
  using onSubmit_cases [of data f] by (auto simp: onSubmit_catch_def)

lemma submit_draft_buy_milk:
  assumes "formValues f = draft_buy_milk" "initialData f = None"
  shows "step P f SubmitClick =
     f\<lparr>errors := [], isSubmitting := True, submitError := None,
       calls := calls f @ [AddTodo draft_buy_milk],
       awaiting := awaiting f @ [Post draft_buy_milk],
       sent := sent f @ [Post draft_buy_milk]\<rparr>"
  using assms
  by (simp add: handleSubmit_valid validate_draft_buy_milk cast_draft_buy_milk onSubmit_def
        isEditMode_def addTodo_draft_buy_milk)

lemma run_change_buy_milk:
  "run P None [Change Title (JStr (ascii ''Buy milk'')) []] =
     (form_mount None)\<lparr>formValues := draft_buy_milk\<rparr>"
  by (simp add: run_def form_mount_def defaultValues_def)

lemma run_snoc: "run P init (es @ [e]) = step P (run P init es) e"
  by (simp add: run_def)

lemma run_submit_buy_milk:
  "run P None [Change Title (JStr (ascii ''Buy milk'')) [], SubmitClick] =
     (form_mount None)
       \<lparr>formValues := draft_buy_milk, isSubmitting := True,
        calls := [AddTodo draft_buy_milk], awaiting := [Post draft_buy_milk],
        sent := [Post draft_buy_milk]\<rparr>"
proof -
  let ?f0 = "(form_mount None)\<lparr>formValues := draft_buy_milk\<rparr>"
  have "run P None ([Change Title (JStr (ascii ''Buy milk'')) []] @ [SubmitClick])
      = step P ?f0 SubmitClick"
    by (simp only: run_snoc run_change_buy_milk)
  also have "\<dots> = ?f0\<lparr>errors := [], isSubmitting := True, submitError := None,
       calls := calls ?f0 @ [AddTodo draft_buy_milk],
       awaiting := awaiting ?f0 @ [Post draft_buy_milk],
       sent := sent ?f0 @ [Post draft_buy_milk]\<rparr>"
    by (rule submit_draft_buy_milk) (simp_all add: form_mount_def)
  finally show ?thesis by (simp add: form_mount_def)
qed

lemma normalize_nonempty: "unknown \<noteq> [] \<Longrightarrow> message (normalize unknown e) \<noteq> []"
  by (cases e) (auto simp: normalize_def ascii_def split: option.splits)

text \<open>
  C2. The form waits for the store and the store call at position \<open>i\<close> fails. Then
  \<open>submitError\<close> is the message that the service made of the failure, which is not
  empty; the field values and the field errors are as before; \<open>isSubmitting\<close> is false;
  nothing was passed to \<open>onSubmitSuccess\<close> or \<open>onCancel\<close>, so the form stays open; the
  call is no longer waited for and no further request was sent.
\<close>

theorem submit_failure:
  assumes "i < length (awaiting f)"
  shows "\<exists>err.
      (case awaiting f ! i of Put j payload \<Rightarrow> updateTodo_response (Inl e)
       | _ \<Rightarrow> addTodo_response (Inl e))
        = Inl err
    \<and> message err \<noteq> []
    \<and> submitError (step P f (StoreSettled i (Inl e))) = Some (message err)
    \<and> formValues (step P f (StoreSettled i (Inl e))) = formValues f
    \<and> isSubmitting (step P f (StoreSettled i (Inl e))) = False
    \<and> awaiting (step P f (StoreSettled i (Inl e)))
        = take i (awaiting f) @ drop (Suc i) (awaiting f)
    \<and> succeeded (step P f (StoreSettled i (Inl e))) = succeeded f
    \<and> cancelled (step P f (StoreSettled i (Inl e))) = cancelled f
    \<and> errors (step P f (StoreSettled i (Inl e))) = errors f
    \<and> sent (step P f (StoreSettled i (Inl e))) = sent f"
proof -
  have upd: "message (normalize (ascii ''Unknown error updating todo'') e) \<noteq> []"
    by (rule normalize_nonempty) (simp add: ascii_def)
  have add: "message (normalize (ascii ''Unknown error creating todo'') e) \<noteq> []"
    by (rule normalize_nonempty) (simp add: ascii_def)
  show ?thesis
  proof (cases "awaiting f ! i")
    case (Put j payload)
    with assms upd show ?thesis
      by (simp add: submit_settled_def updateTodo_response_def onSubmit_catch_def)
  next
    case GetTodos
    with assms add show ?thesis
      by (simp add: submit_settled_def addTodo_response_def onSubmit_catch_def)
  next
    case (GetTodo j)
    with assms add show ?thesis
      by (simp add: submit_settled_def addTodo_response_def onSubmit_catch_def)
  next
    case (Post payload)
    with assms add show ?thesis
      by (simp add: submit_settled_def addTodo_response_def onSubmit_catch_def)
  qed
qed

text \<open>
  A new form: the title "Buy milk" is typed, the form is submitted, and the store does
  not answer.
\<close>

theorem submit_failure_witness:
  "\<forall>P. submitError (run P None [Change Title (JStr (ascii ''Buy milk'')) [], SubmitClick,
                                  StoreSettled 0 (Inl NoResponse)])
          = Some (ascii ''No response received from Todos API'')
      \<and> formValues (run P None [Change Title (JStr (ascii ''Buy milk'')) [], SubmitClick,
                                  StoreSettled 0 (Inl NoResponse)]) = draft_buy_milk
      \<and> isSubmitting (run P None [Change Title (JStr (ascii ''Buy milk'')) [], SubmitClick,
                                    StoreSettled 0 (Inl NoResponse)]) = False
      \<and> awaiting (run P None [Change Title (JStr (ascii ''Buy milk'')) [], SubmitClick,
                                StoreSettled 0 (Inl NoResponse)]) = []
      \<and> succeeded (run P None [Change Title (JStr (ascii ''Buy milk'')) [], SubmitClick,
                                 StoreSettled 0 (Inl NoResponse)]) = []"
proof
  fix P
  let ?f1 = "run P None [Change Title (JStr (ascii ''Buy milk'')) [], SubmitClick]"
  have aw: "awaiting ?f1 = [Post draft_buy_milk]"
    and vals: "formValues ?f1 = draft_buy_milk" "succeeded ?f1 = []"
    by (simp_all add: run_submit_buy_milk form_mount_def)
  have len: "0 < length (awaiting ?f1)" by (simp add: aw)
  have run3: "run P None [Change Title (JStr (ascii ''Buy milk'')) [], SubmitClick,
                         StoreSettled 0 (Inl NoResponse)]
      = step P ?f1 (StoreSettled 0 (Inl NoResponse))"
    using run_snoc [of P None "[Change Title (JStr (ascii ''Buy milk'')) [], SubmitClick]"
                      "StoreSettled 0 (Inl NoResponse)"]
    by simp
  from submit_failure [OF len, of NoResponse P] aw vals
  show "submitError (run P None [Change Title (JStr (ascii ''Buy milk'')) [], SubmitClick,
                                  StoreSettled 0 (Inl NoResponse)])
          = Some (ascii ''No response received from Todos API'')
      \<and> formValues (run P None [Change Title (JStr (ascii ''Buy milk'')) [], SubmitClick,
                                  StoreSettled 0 (Inl NoResponse)]) = draft_buy_milk
      \<and> isSubmitting (run P None [Change Title (JStr (ascii ''Buy milk'')) [], SubmitClick,
                                    StoreSettled 0 (Inl NoResponse)]) = False
      \<and> awaiting (run P None [Change Title (JStr (ascii ''Buy milk'')) [], SubmitClick,
                                StoreSettled 0 (Inl NoResponse)]) = []
      \<and> succeeded (run P None [Change Title (JStr (ascii ''Buy milk'')) [], SubmitClick,
                                 StoreSettled 0 (Inl NoResponse)]) = []"
    unfolding run3 by (auto simp: addTodo_response_def normalize_def)
qed

text \<open>
  The service is called only by a submit of a form whose field values pass the schema.
\<close>

lemma service_called_only_when_valid:
  "calls (step P f e) \<noteq> calls f \<Longrightarrow> e = SubmitClick \<and> validate P (formValues f) = []"
proof (cases e)
  case SubmitClick
  assume ch: "calls (step P f e) \<noteq> calls f"
  have "validate P (formValues f) = []"
  proof (rule ccontr)
    assume "validate P (formValues f) \<noteq> []"
    with ch SubmitClick show False by (simp add: handleSubmit_invalid)
  qed
  with SubmitClick show ?thesis by simp
next
  case CancelClick
  assume "calls (step P f e) \<noteq> calls f"
  with CancelClick show ?thesis by (simp add: handleCancel_def reset_def Let_def)
next
  case (Change k v es)
  assume "calls (step P f e) \<noteq> calls f"
  with Change show ?thesis by simp
next
  case (StoreSettled i r)
  assume "calls (step P f e) \<noteq> calls f"
  with StoreSettled show ?thesis
    by (simp add: submit_settled_def Let_def onSubmit_then_def onSubmit_catch_def reset_def
          split: if_splits sum.splits)
qed

text \<open>
  C3. A repeated submit while a submit is outstanding must be ignored. It is not: in a
  new form with the title "Buy milk", rendered with its button enabled, two submits reach
  \<open>handleSubmit(onSubmit)\<close> one after the other. After the first, \<open>isSubmitting\<close> is
  set and one request is waited for; the second calls \<open>addTodo\<close> again and sends a
  second request.
\<close>

theorem double_submit_two_posts:
  "rendered_disabled (run P None [Change Title (JStr (ascii ''Buy milk'')) []]) = False
   \<and> isSubmitting (run P None [Change Title (JStr (ascii ''Buy milk'')) [], SubmitClick])
       = True
   \<and> awaiting (run P None [Change Title (JStr (ascii ''Buy milk'')) [], SubmitClick])
       = [Post draft_buy_milk]
   \<and> calls (run P None [Change Title (JStr (ascii ''Buy milk'')) [], SubmitClick, SubmitClick])
       = [AddTodo draft_buy_milk, AddTodo draft_buy_milk]
   \<and> sent (run P None [Change Title (JStr (ascii ''Buy milk'')) [], SubmitClick, SubmitClick])
       = [Post draft_buy_milk, Post draft_buy_milk]
   \<and> awaiting (run P None [Change Title (JStr (ascii ''Buy milk'')) [], SubmitClick, SubmitClick])
       = [Post draft_buy_milk, Post draft_buy_milk]"
proof -
  let ?f1 = "run P None [Change Title (JStr (ascii ''Buy milk'')) [], SubmitClick]"
  have f1: "?f1 = (form_mount None)
       \<lparr>formValues := draft_buy_milk, isSubmitting := True,
        calls := [AddTodo draft_buy_milk], awaiting := [Post draft_buy_milk],
        sent := [Post draft_buy_milk]\<rparr>"
    by (rule run_submit_buy_milk)
  have v1: "formValues ?f1 = draft_buy_milk" and i1: "initialData ?f1 = None"
    by (simp_all add: f1 form_mount_def)
  have "run P None ([Change Title (JStr (ascii ''Buy milk'')) [], SubmitClick] @ [SubmitClick])
      = step P ?f1 SubmitClick"
    by (rule run_snoc)
  also have "\<dots> = ?f1\<lparr>errors := [], isSubmitting := True, submitError := None,
       calls := calls ?f1 @ [AddTodo draft_buy_milk],
       awaiting := awaiting ?f1 @ [Post draft_buy_milk],
       sent := sent ?f1 @ [Post draft_buy_milk]\<rparr>"
    by (rule submit_draft_buy_milk [OF v1 i1])
  finally have f2: "run P None [Change Title (JStr (ascii ''Buy milk'')) [], SubmitClick,
                               SubmitClick]
      = ?f1\<lparr>errors := [], isSubmitting := True, submitError := None,
       calls := calls ?f1 @ [AddTodo draft_buy_milk],
       awaiting := awaiting ?f1 @ [Post draft_buy_milk],
       sent := sent ?f1 @ [Post draft_buy_milk]\<rparr>"
    by simp
  have a: "rendered_disabled (run P None [Change Title (JStr (ascii ''Buy milk'')) []]) = False"
    by (simp add: run_change_buy_milk rendered_disabled_def form_mount_def)
  have b: "isSubmitting ?f1 = True" "awaiting ?f1 = [Post draft_buy_milk]"
    "calls ?f1 = [AddTodo draft_buy_milk]" "sent ?f1 = [Post draft_buy_milk]"
    by (simp_all add: f1 form_mount_def)
  show ?thesis
    unfolding f2 using a b by simp
qed

text \<open>
  C5. The resolver reports an error for \<open>title\<close> when the title is missing or has fewer
  than 3 or more than 100 code units, and an error for \<open>userId\<close> when it is missing,
  not a number (a boolean, NaN, a string that is blank or does not convert to a finite
  number) or not between 1 and 10; both are entries of the one list of errors. When the
  list is not empty, a click on the submit button calls neither the service nor the store.
\<close>

theorem validate_reports:
  "((title d = JUndefined \<or> title d = JNull
       \<or> (\<exists>s. title d = JStr s \<and> (length s < 3 \<or> 100 < length s)))
      \<longrightarrow> map_of (validate P d) Title \<noteq> None)
   \<and> ((userId d = JUndefined \<or> userId d = JNull \<or> (\<exists>b. userId d = JBool b)
       \<or> (\<exists>n. userId d = JNum n \<and> (\<forall>q. n = Fin q \<longrightarrow> q < 1 \<or> 10 < q))
       \<or> (\<exists>s. userId d = JStr s
             \<and> (filter (\<lambda>c. \<not> is_whitespace c) s = []
                 \<or> (\<forall>q. toNumber P (filter (\<lambda>c. \<not> is_whitespace c) s) = Fin q
                        \<longrightarrow> q < 1 \<or> 10 < q))))
      \<longrightarrow> map_of (validate P d) UserId \<noteq> None)
   \<and> (validate P (formValues f) \<noteq> [] \<longrightarrow>
        sent (step P f SubmitClick) = sent f
        \<and> calls (step P f SubmitClick) = calls f
        \<and> awaiting (step P f SubmitClick) = awaiting f)"
proof -
  have t: "(title d = JUndefined \<or> title d = JNull
       \<or> (\<exists>s. title d = JStr s \<and> (length s < 3 \<or> 100 < length s)))
      \<longrightarrow> map_of (validate P d) Title \<noteq> None"
    by (auto simp: map_of_validate title_errors_string title_errors_absent)
  have u: "(userId d = JUndefined \<or> userId d = JNull \<or> (\<exists>b. userId d = JBool b)
       \<or> (\<exists>n. userId d = JNum n \<and> (\<forall>q. n = Fin q \<longrightarrow> q < 1 \<or> 10 < q))
       \<or> (\<exists>s. userId d = JStr s
             \<and> (filter (\<lambda>c. \<not> is_whitespace c) s = []
                 \<or> (\<forall>q. toNumber P (filter (\<lambda>c. \<not> is_whitespace c) s) = Fin q
                        \<longrightarrow> q < 1 \<or> 10 < q))))
      \<longrightarrow> map_of (validate P d) UserId \<noteq> None"
    by (auto simp: map_of_validate userId_errors_cast Let_def split: jsnum.splits)
  have b: "validate P (formValues f) \<noteq> [] \<longrightarrow>
        sent (step P f SubmitClick) = sent f
        \<and> calls (step P f SubmitClick) = calls f
        \<and> awaiting (step P f SubmitClick) = awaiting f"
    by (simp add: handleSubmit_invalid)
  from t u b show ?thesis by blast
qed

text \<open>A draft with the title "ab" and the user 11: both errors, and no call.\<close>

theorem validate_reports_witness:
  "\<forall>P. validate P \<lparr>todoId = JUndefined, title = JStr (ascii ''ab''), completed = JBool False,
                       userId = JNum (Fin 11)\<rparr>
          = [(Title, Text (ascii ''Title must be at least 3 characters'')),
             (UserId, Text (ascii ''User ID must not exceed 10''))]
      \<and> map_of (validate P \<lparr>todoId = JUndefined, title = JStr (ascii ''ab''),
                               completed = JBool False, userId = JNum (Fin 11)\<rparr>) Title \<noteq> None
      \<and> map_of (validate P \<lparr>todoId = JUndefined, title = JStr (ascii ''ab''),
                               completed = JBool False, userId = JNum (Fin 11)\<rparr>) UserId \<noteq> None
      \<and> sent (step P ((form_mount None)
                        \<lparr>formValues := \<lparr>todoId = JUndefined, title = JStr (ascii ''ab''),
                                         completed = JBool False, userId = JNum (Fin 11)\<rparr>\<rparr>)
                  SubmitClick) = []
      \<and> calls (step P ((form_mount None)
                        \<lparr>formValues := \<lparr>todoId = JUndefined, title = JStr (ascii ''ab''),
                                         completed = JBool False, userId = JNum (Fin 11)\<rparr>\<rparr>)
                  SubmitClick) = []"
proof
  fix P
  let ?d = "\<lparr>todoId = JUndefined, title = JStr (ascii ''ab''), completed = JBool False,
             userId = JNum (Fin 11)\<rparr>"
  let ?f = "(form_mount None)\<lparr>formValues := ?d\<rparr>"
  have v: "validate P ?d
          = [(Title, Text (ascii ''Title must be at least 3 characters'')),
             (UserId, Text (ascii ''User ID must not exceed 10''))]"
    by (simp add: validate_eq schema_inner title_errors_string userId_errors_cast
          completed_errors_cast parseErrorSchema_def ascii_def)
  have short: "length (ascii ''ab'') < 3" by (simp add: ascii_def)
  have t: "\<exists>s. title ?d = JStr s \<and> (length s < 3 \<or> 100 < length s)"
    using short by simp
  have u: "\<exists>n. userId ?d = JNum n \<and> (\<forall>q. n = Fin q \<longrightarrow> q < 1 \<or> 10 < q)"
    by simp
  have ne: "validate P (formValues ?f) \<noteq> []" by (simp add: v)
  have init: "sent ?f = []" "calls ?f = []" by (simp_all add: form_mount_def)
  from validate_reports [of ?d P ?f] t u ne init v
  show "validate P ?d
          = [(Title, Text (ascii ''Title must be at least 3 characters'')),
             (UserId, Text (ascii ''User ID must not exceed 10''))]
      \<and> map_of (validate P ?d) Title \<noteq> None
      \<and> map_of (validate P ?d) UserId \<noteq> None
      \<and> sent (step P ?f SubmitClick) = []
      \<and> calls (step P ?f SubmitClick) = []"
    by (simp del: step.simps)
qed

text \<open>
  C6. For the draft with the title "ab" and the user 1 the resolver reports the one error
  "Title must be at least 3 characters" for \<open>title\<close>; a click on the submit button
  of a form with these values shows that error and calls neither the service nor the
  store.
\<close>

theorem validate_ab:
  "validate P draft_ab = [(Title, Text (ascii ''Title must be at least 3 characters''))]
   \<and> sent (step P (f\<lparr>formValues := draft_ab\<rparr>) SubmitClick) = sent f
   \<and> calls (step P (f\<lparr>formValues := draft_ab\<rparr>) SubmitClick) = calls f
   \<and> awaiting (step P (f\<lparr>formValues := draft_ab\<rparr>) SubmitClick) = awaiting f
   \<and> errors (step P (f\<lparr>formValues := draft_ab, isSubmitting := False\<rparr>) SubmitClick)
       = [(Title, Text (ascii ''Title must be at least 3 characters''))]"
  by (simp add: validate_draft_ab handleSubmit_invalid)

text \<open>
  C9. A submit attempt on a form that is not submitting shows the errors of the resolver
  for the field values and leaves the values as they are; a second attempt shows the
  same errors.
\<close>

theorem validate_twice:
  "errors (step P (step P f SubmitClick) SubmitClick) = errors (step P f SubmitClick)
   \<and> (\<not> isSubmitting f \<longrightarrow>
        errors (step P f SubmitClick) = validate P (formValues f)
        \<and> formValues (step P f SubmitClick) = formValues f)"
proof -
  have once: "\<And>g. errors (step P g SubmitClick) = validate P (formValues g)
      \<and> formValues (step P g SubmitClick) = formValues g"
  proof -
    fix g :: todoForm
    show "errors (step P g SubmitClick) = validate P (formValues g)
      \<and> formValues (step P g SubmitClick) = formValues g"
      by (cases "validate P (formValues g) = []")
        (simp_all add: handleSubmit_valid handleSubmit_invalid onSubmit_errors onSubmit_formValues)
  qed
  have twice: "errors (step P (step P f SubmitClick) SubmitClick) = errors (step P f SubmitClick)"
    using once [of "step P f SubmitClick"] once [of f] by simp
  from once [of f] twice show ?thesis by blast
qed

text \<open>Two submit attempts on a new form with the title "ab".\<close>

theorem validate_twice_witness:
  "\<forall>P. errors (step P ((form_mount None)\<lparr>formValues := draft_ab\<rparr>) SubmitClick)
          = [(Title, Text (ascii ''Title must be at least 3 characters''))]
      \<and> errors (step P (step P ((form_mount None)\<lparr>formValues := draft_ab\<rparr>) SubmitClick)
                  SubmitClick)
          = [(Title, Text (ascii ''Title must be at least 3 characters''))]
      \<and> formValues (step P ((form_mount None)\<lparr>formValues := draft_ab\<rparr>) SubmitClick)
          = draft_ab"
proof
  fix P
  let ?f = "(form_mount None)\<lparr>formValues := draft_ab\<rparr>"
  have ns: "\<not> isSubmitting ?f" and v: "formValues ?f = draft_ab"
    by (simp_all add: form_mount_def)
  from validate_twice [of P ?f] ns v validate_draft_ab [of P]
  show "errors (step P ?f SubmitClick)
          = [(Title, Text (ascii ''Title must be at least 3 characters''))]
      \<and> errors (step P (step P ?f SubmitClick) SubmitClick)
          = [(Title, Text (ascii ''Title must be at least 3 characters''))]
      \<and> formValues (step P ?f SubmitClick) = draft_ab"
    by (simp del: step.simps)
qed

end
